theory Spec2Isabelle
  imports Main
begin

section \<open>Run-time failures\<close>

text \<open>
  A Go run either returns or panics. The panics met in \<^verbatim>\<open>ast.go\<close> are the run-time
  error raised by a method call on a nil interface value or by a field read through a nil
  pointer (\<open>NilDeref\<close>) and the explicit \<^verbatim>\<open>panic(...)\<close> calls (\<open>Panic\<close>, with the
  message). \<open>Unmodelled\<close> is not a Go outcome: it marks the one library behaviour left
  out of this development, \<^verbatim>\<open>fmt.Fprintf\<close> reading a formatting directive out of a
  format string that holds a percent sign (see \<open>Fprintf_noargs\<close>).
\<close>

datatype error = NilDeref | Panic string | Unmodelled

definition error_text :: "error \<Rightarrow> string" where
  "error_text e = (case e of
       NilDeref \<Rightarrow> ''runtime error: invalid memory address or nil pointer dereference''
     | Panic m \<Rightarrow> m
     | Unmodelled \<Rightarrow> [])"

text \<open>The first failure of a sequence of calls is the failure of the sequence.\<close>

fun collect :: "(error + 'a) list \<Rightarrow> error + 'a list" where
  "collect [] = Inr []"
| "collect (Inl e # rs) = Inl e"
| "collect (Inr x # rs) = (case collect rs of Inl e \<Rightarrow> Inl e | Inr xs \<Rightarrow> Inr (x # xs))"

section \<open>Text helpers of the standard library\<close>

text \<open>\<^verbatim>\<open>%d\<close> of \<^verbatim>\<open>fmt\<close>: the decimal numeral of an integer.\<close>

definition digit_char :: "nat \<Rightarrow> char" where
  "digit_char d = char_of (48 + d)"

function decimal :: "nat \<Rightarrow> string" where
  "decimal n = (if n < 10 then [digit_char n] else decimal (n div 10) @ [digit_char (n mod 10)])"
  by pat_completeness auto
termination
  by (relation "measure id") auto

definition Sprintf_d :: "int \<Rightarrow> string" where
  "Sprintf_d i = (if i < 0 then CHR ''-'' # decimal (nat (- i)) else decimal (nat i))"

text \<open>
  The loop shape shared by every \<^verbatim>\<open>String\<close> method that lists elements:
  \<^verbatim>\<open>for i, x := range xs { write(x); if i+1 < len(xs) { write(sep) } }\<close>.
\<close>

definition joinWith :: "string \<Rightarrow> string list \<Rightarrow> string" where
  "joinWith sep xs =
     concat (map (\<lambda>i. xs ! i @ (if i + 1 < length xs then sep else [])) [0..<length xs])"

text \<open>
  \<^verbatim>\<open>fmt.Fprintf(out, s)\<close> with the text \<open>s\<close> as the format and no operand writes
  \<open>s\<close> itself when \<open>s\<close> holds no percent sign. What \<^verbatim>\<open>fmt\<close> makes of a
  directive without operand is not modelled.
\<close>

definition Fprintf_noargs :: "string \<Rightarrow> error + string" where
  "Fprintf_noargs s = (if CHR ''%'' \<in> set s then Inl Unmodelled else Inr s)"

text \<open>
  \<^verbatim>\<open>%s\<close> of \<^verbatim>\<open>fmt\<close> on an operand with a \<^verbatim>\<open>String\<close> method: a nil interface
  value prints as \<^verbatim>\<open>%!s(<nil>)\<close>; otherwise the method's result is printed, and a panic
  of the method is caught by \<^verbatim>\<open>fmt\<close> and printed in place of the result. The first
  argument tells whether the operand is nil, the second is the outcome of the method.
\<close>

definition Sprintf_s :: "bool \<Rightarrow> error + string \<Rightarrow> error + string" where
  "Sprintf_s isnil r =
     (if isnil then Inr ''%!s(<nil>)''
      else case r of
          Inr s \<Rightarrow> Inr s
        | Inl Unmodelled \<Rightarrow> Inl Unmodelled
        | Inl e \<Rightarrow> Inr (''%!s(PANIC=String method: '' @ error_text e @ '')''))"

section \<open>The type system\<close>

subsection \<open>Data\<close>

text \<open>
  \<^verbatim>\<open>SimpleTypeID\<close> is an \<^verbatim>\<open>int\<close> whose named values start at \<^verbatim>\<open>iota + 1\<close>.
\<close>

definition SIMPLE_TYPE_BOOL :: int where "SIMPLE_TYPE_BOOL = 1"
definition SIMPLE_TYPE_BYTE :: int where "SIMPLE_TYPE_BYTE = 2"
definition SIMPLE_TYPE_COMPLEX128 :: int where "SIMPLE_TYPE_COMPLEX128 = 3"
definition SIMPLE_TYPE_COMPLEX64 :: int where "SIMPLE_TYPE_COMPLEX64 = 4"
definition SIMPLE_TYPE_ERROR :: int where "SIMPLE_TYPE_ERROR = 5"
definition SIMPLE_TYPE_FLOAT32 :: int where "SIMPLE_TYPE_FLOAT32 = 6"
definition SIMPLE_TYPE_FLOAT64 :: int where "SIMPLE_TYPE_FLOAT64 = 7"
definition SIMPLE_TYPE_INT :: int where "SIMPLE_TYPE_INT = 8"
definition SIMPLE_TYPE_INT16 :: int where "SIMPLE_TYPE_INT16 = 9"
definition SIMPLE_TYPE_INT32 :: int where "SIMPLE_TYPE_INT32 = 10"
definition SIMPLE_TYPE_INT64 :: int where "SIMPLE_TYPE_INT64 = 11"
definition SIMPLE_TYPE_INT8 :: int where "SIMPLE_TYPE_INT8 = 12"
definition SIMPLE_TYPE_RUNE :: int where "SIMPLE_TYPE_RUNE = 13"
definition SIMPLE_TYPE_STRING :: int where "SIMPLE_TYPE_STRING = 14"
definition SIMPLE_TYPE_UINT :: int where "SIMPLE_TYPE_UINT = 15"
definition SIMPLE_TYPE_UINT16 :: int where "SIMPLE_TYPE_UINT16 = 16"
definition SIMPLE_TYPE_UINT32 :: int where "SIMPLE_TYPE_UINT32 = 17"
definition SIMPLE_TYPE_UINT64 :: int where "SIMPLE_TYPE_UINT64 = 18"
definition SIMPLE_TYPE_UINT8 :: int where "SIMPLE_TYPE_UINT8 = 19"
definition SIMPLE_TYPE_UINTPTR :: int where "SIMPLE_TYPE_UINTPTR = 20"

text \<open>The table \<^verbatim>\<open>simpleTypeAsStr\<close>; a key that is not in a Go map reads as \<^verbatim>\<open>""\<close>.\<close>

definition simpleTypeAsStr :: "int \<Rightarrow> string" where
  "simpleTypeAsStr i =
    (if i = SIMPLE_TYPE_BOOL then ''bool''
     else if i = SIMPLE_TYPE_BYTE then ''byte''
     else if i = SIMPLE_TYPE_COMPLEX128 then ''complex128''
     else if i = SIMPLE_TYPE_COMPLEX64 then ''complex64''
     else if i = SIMPLE_TYPE_ERROR then ''error''
     else if i = SIMPLE_TYPE_FLOAT32 then ''float32''
     else if i = SIMPLE_TYPE_FLOAT64 then ''float64''
     else if i = SIMPLE_TYPE_INT then ''int''
     else if i = SIMPLE_TYPE_INT16 then ''int16''
     else if i = SIMPLE_TYPE_INT32 then ''int32''
     else if i = SIMPLE_TYPE_INT64 then ''int64''
     else if i = SIMPLE_TYPE_INT8 then ''int8''
     else if i = SIMPLE_TYPE_RUNE then ''rune''
     else if i = SIMPLE_TYPE_STRING then ''string''
     else if i = SIMPLE_TYPE_UINT then ''uint''
     else if i = SIMPLE_TYPE_UINT16 then ''uint16''
     else if i = SIMPLE_TYPE_UINT32 then ''uint32''
     else if i = SIMPLE_TYPE_UINT64 then ''uint64''
     else if i = SIMPLE_TYPE_UINT8 then ''uint8''
     else if i = SIMPLE_TYPE_UINTPTR then ''uintptr''
     else [])"

datatype Kind =
    KIND_SIMPLE | KIND_ARRAY | KIND_SLICE | KIND_MAP | KIND_POINTER | KIND_CUSTOM
  | KIND_STRUCT | KIND_INTERFACE | KIND_TUPLE | KIND_FUNC | KIND_CHAN
  | KIND_GENERIC_PARAM | KIND_GENERIC_INST | KIND_UNKNOWN

datatype ChanDir = CHAN_DIR_BI | CHAN_DIR_RECEIVE | CHAN_DIR_SEND

text \<open>
  A \<^verbatim>\<open>*TypeDecl\<close> is an address into a table of declarations (\<open>decls\<close> below): named
  types refer to their declaration and the declaration refers back to types, so the
  object graph may be cyclic.
\<close>

type_synonym addr = nat

text \<open>
  A value of the interface \<^verbatim>\<open>Type\<close>. \<open>NilType\<close> is the nil interface value. The
  fields, in the order of the constructor arguments:
    \<^item> \<open>SimpleType ID\<close>
    \<^item> \<open>ArrayType Size Of\<close>
    \<^item> \<open>SliceType Of\<close>
    \<^item> \<open>MapType By Of\<close>
    \<^item> \<open>FuncType Args Results\<close>
    \<^item> \<open>ChanType Of Dir\<close>
    \<^item> \<open>PointerType To\<close>
    \<^item> \<open>TupleType Members\<close>
    \<^item> \<open>StructType Members Keys Name\<close>: the Go map \<^verbatim>\<open>Members\<close> is an association
      list with distinct keys
    \<^item> \<open>IfaceType Keys Methods name\<close>: the Go map \<^verbatim>\<open>Methods\<close> is an association list
      with distinct keys; of a \<^verbatim>\<open>*FuncDecl\<close> it keeps \<^verbatim>\<open>name\<close>, \<^verbatim>\<open>typ.Args\<close> and
      \<^verbatim>\<open>typ.Results\<close>
    \<^item> \<open>CustomType Name Package Decl\<close>: of the \<^verbatim>\<open>*ImportStmt\<close> it keeps the
      \<^verbatim>\<open>name\<close>; \<open>None\<close> is the nil pointer in both fields
    \<^item> \<open>GenericParamType Name Concrete\<close>
    \<^item> \<open>GenericType Name Package Params Generic Struct\<close>: of the \<^verbatim>\<open>*GenericStruct\<close> it
      keeps the \<^verbatim>\<open>Name()\<close>; \<open>None\<close> is the nil pointer
    \<^item> \<open>UnknownType\<close>
\<close>

datatype Type =
    NilType
  | SimpleType int
  | ArrayType int Type
  | SliceType Type
  | MapType Type Type
  | FuncType "Type list" "Type list"
  | ChanType Type ChanDir
  | PointerType Type
  | TupleType "Type list"
  | StructType "(string \<times> Type) list" "string list" string
  | IfaceType "string list" "(string \<times> string \<times> Type list \<times> Type list) list" string
  | CustomType string "string option" "addr option"
  | GenericParamType string Type
  | GenericType string "string option" "Type list" "string option" "Type option"
  | UnknownType

text \<open>\<^verbatim>\<open>TypeDecl\<close>: \<^verbatim>\<open>name\<close> and \<^verbatim>\<open>AliasedType\<close> (\<open>NilType\<close> for a builtin).\<close>

record TypeDecl =
  TypeDecl_name :: string
  AliasedType :: Type

type_synonym decls = "addr \<Rightarrow> TypeDecl"

subsection \<open>Kind\<close>

text \<open>The method \<^verbatim>\<open>Kind()\<close>; a method call on the nil interface value panics.\<close>

fun KindOf :: "Type \<Rightarrow> error + Kind" where
  "KindOf NilType = Inl NilDeref"
| "KindOf (SimpleType i) = Inr KIND_SIMPLE"
| "KindOf (ArrayType n t) = Inr KIND_ARRAY"
| "KindOf (SliceType t) = Inr KIND_SLICE"
| "KindOf (MapType b t) = Inr KIND_MAP"
| "KindOf (FuncType as rs) = Inr KIND_FUNC"
| "KindOf (ChanType t d) = Inr KIND_CHAN"
| "KindOf (PointerType t) = Inr KIND_POINTER"
| "KindOf (TupleType ms) = Inr KIND_TUPLE"
| "KindOf (StructType ms ks nm) = Inr KIND_STRUCT"
| "KindOf (IfaceType ks ms nm) = Inr KIND_INTERFACE"
| "KindOf (CustomType nm pkg d) = Inr KIND_CUSTOM"
| "KindOf (GenericParamType nm c) = Inr KIND_GENERIC_PARAM"
| "KindOf (GenericType nm pkg ps g s) = Inr KIND_GENERIC_INST"
| "KindOf UnknownType = Inr KIND_UNKNOWN"

subsection \<open>String\<close>

text \<open>\<^verbatim>\<open>FuncType.Header\<close> on the texts of the arguments and of the results.\<close>

definition Header_text :: "string list \<Rightarrow> string list \<Rightarrow> string" where
  "Header_text sa sr =
     ''('' @ joinWith '', '' sa @ '')'' @
     (case sr of
        [] \<Rightarrow> []
      | [r] \<Rightarrow> '' '' @ r
      | _ \<Rightarrow> '' ('' @ joinWith '', '' sr @ '')'')"

text \<open>
  The body of the loop of \<^verbatim>\<open>StructType.String\<close> at index \<open>i\<close>: a key that is not a
  member is skipped; \<open>n\<close> is \<^verbatim>\<open>len(t.Members)\<close> and \<open>strs\<close> maps each member to the
  outcome of its \<^verbatim>\<open>String()\<close>.
\<close>

definition struct_field :: "(string \<times> (error + string)) list \<Rightarrow> nat \<Rightarrow> string list \<Rightarrow> nat
    \<Rightarrow> error + string" where
  "struct_field strs n ks i =
     (case map_of strs (ks ! i) of
        None \<Rightarrow> Inr []
      | Some r \<Rightarrow>
          (case r of
             Inl e \<Rightarrow> Inl e
           | Inr s \<Rightarrow> Inr (ks ! i @ '' '' @ s @ (if i + 1 < n then ''; '' else []))))"

text \<open>
  The body of the loop of \<^verbatim>\<open>IfaceType.String\<close> at index \<open>i\<close>: \<^verbatim>\<open>t.Methods[k]\<close> of
  a key that is not in the map is a nil \<^verbatim>\<open>*FuncDecl\<close>, whose \<^verbatim>\<open>name\<close> cannot be read.
\<close>

definition iface_method :: "(string \<times> string \<times> (error + string)) list \<Rightarrow> nat \<Rightarrow> string list
    \<Rightarrow> nat \<Rightarrow> error + string" where
  "iface_method hdrs n ks i =
     (case map_of hdrs (ks ! i) of
        None \<Rightarrow> Inl NilDeref
      | Some (mname, r) \<Rightarrow>
          (case r of
             Inl e \<Rightarrow> Inl e
           | Inr h \<Rightarrow> Inr (mname @ h @ (if i + 1 < n then ''; '' else []))))"

definition concat_all :: "(error + string) list \<Rightarrow> error + string" where
  "concat_all rs = (case collect rs of Inl e \<Rightarrow> Inl e | Inr ss \<Rightarrow> Inr (concat ss))"

definition chan_prefix :: "ChanDir \<Rightarrow> string" where
  "chan_prefix d = (case d of
       CHAN_DIR_RECEIVE \<Rightarrow> ''<-chan ''
     | CHAN_DIR_SEND \<Rightarrow> ''chan<- ''
     | CHAN_DIR_BI \<Rightarrow> ''chan '')"

fun String :: "Type \<Rightarrow> error + string" where
  "String NilType = Inl NilDeref"
| "String (SimpleType i) = Inr (simpleTypeAsStr i)"
| "String (ArrayType n t) =
     (case String t of Inl e \<Rightarrow> Inl e | Inr s \<Rightarrow> Inr (''['' @ Sprintf_d n @ '']'' @ s))"
| "String (SliceType t) =
     (case String t of Inl e \<Rightarrow> Inl e | Inr s \<Rightarrow> Inr (''[]'' @ s))"
| "String (MapType b t) =
     (case String b of
        Inl e \<Rightarrow> Inl e
      | Inr sb \<Rightarrow> (case String t of Inl e \<Rightarrow> Inl e | Inr s \<Rightarrow> Inr (''map['' @ sb @ '']'' @ s)))"
| "String (FuncType as rs) =
     (case collect (map String as) of
        Inl e \<Rightarrow> Inl e
      | Inr sa \<Rightarrow>
          (case collect (map String rs) of
             Inl e \<Rightarrow> Inl e
           | Inr sr \<Rightarrow> Inr (''func'' @ Header_text sa sr)))"
| "String (ChanType t d) =
     (case Sprintf_s (t = NilType) (String t) of
        Inl e \<Rightarrow> Inl e
      | Inr s \<Rightarrow> Inr (chan_prefix d @ s))"
| "String (PointerType t) =
     (case String t of Inl e \<Rightarrow> Inl e | Inr s \<Rightarrow> Inr (''*'' @ s))"
| "String (TupleType ms) =
     (case collect (map (\<lambda>m. case String m of Inl e \<Rightarrow> Inl e | Inr s \<Rightarrow> Fprintf_noargs s) ms) of
        Inl e \<Rightarrow> Inl e
      | Inr ss \<Rightarrow> Inr (''('' @ joinWith '', '' ss @ '')''))"
| "String (StructType ms ks nm) =
     (case concat_all (map (struct_field (map (\<lambda>(k, t). (k, String t)) ms) (length ms) ks)
                          [0..<length ks]) of
        Inl e \<Rightarrow> Inl e
      | Inr body \<Rightarrow> Inr (''struct {'' @ body @ ''}''))"
| "String (IfaceType ks ms nm) =
     (case concat_all
             (map (iface_method
                     (map (\<lambda>(k, mname, as, rs).
                             (k, mname,
                              case collect (map String as) of
                                Inl e \<Rightarrow> Inl e
                              | Inr sa \<Rightarrow>
                                  (case collect (map String rs) of
                                     Inl e \<Rightarrow> Inl e
                                   | Inr sr \<Rightarrow> Inr (Header_text sa sr)))) ms)
                     (length ms) ks)
                [0..<length ks]) of
        Inl e \<Rightarrow> Inl e
      | Inr body \<Rightarrow> Inr (''interface{'' @ body @ ''}''))"
| "String (CustomType nm pkg d) =
     (case pkg of None \<Rightarrow> Inr nm | Some p \<Rightarrow> Inr (p @ ''.'' @ nm))"
| "String (GenericParamType nm c) = (if c = NilType then Inr nm else String c)"
| "String (GenericType nm pkg ps g s) =
     (case g of
        None \<Rightarrow> Inl NilDeref
      | Some gname \<Rightarrow>
          (case collect (map String ps) of
             Inl e \<Rightarrow> Inl e
           | Inr sp \<Rightarrow> Inr (gname @ ''['' @ joinWith '', '' sp @ '']'')))"
| "String UnknownType = Inr ''_''"

text \<open>\<^verbatim>\<open>FuncType.Header\<close> itself, on the argument and result types.\<close>

definition Header :: "Type list \<Rightarrow> Type list \<Rightarrow> error + string" where
  "Header as rs =
     (case collect (map String as) of
        Inl e \<Rightarrow> Inl e
      | Inr sa \<Rightarrow>
          (case collect (map String rs) of
             Inl e \<Rightarrow> Inl e
           | Inr sr \<Rightarrow> Inr (Header_text sa sr)))"

subsection \<open>Known\<close>

text \<open>
  The loop \<^verbatim>\<open>for _, x := range xs { if !x.Known() { return false } }; return true\<close>
  on the outcomes of the calls: it stops at the first outcome that is a panic or
  \<^verbatim>\<open>false\<close>.
\<close>

fun all_Known :: "(error + bool) list \<Rightarrow> error + bool" where
  "all_Known [] = Inr True"
| "all_Known (Inl e # rs) = Inl e"
| "all_Known (Inr b # rs) = (if b then all_Known rs else Inr False)"

fun Known :: "Type \<Rightarrow> error + bool" where
  "Known NilType = Inl NilDeref"
| "Known (SimpleType i) = Inr True"
| "Known (ArrayType n t) = Known t"
| "Known (SliceType t) = Known t"
| "Known (MapType b t) =
     (case Known b of Inl e \<Rightarrow> Inl e | Inr kb \<Rightarrow> if kb then Known t else Inr False)"
| "Known (FuncType as rs) =
     (case all_Known (map Known as) of
        Inl e \<Rightarrow> Inl e
      | Inr ka \<Rightarrow> if ka then all_Known (map Known rs) else Inr False)"
| "Known (ChanType t d) = Known t"
| "Known (PointerType t) = Known t"
| "Known (TupleType ms) = all_Known (map Known ms)"
| "Known (StructType ms ks nm) = all_Known (map (\<lambda>(k, t). Known t) ms)"
| "Known (IfaceType ks ms nm) = Inr True"
| "Known (CustomType nm pkg d) = Inr True"
| "Known (GenericParamType nm c) = (if c = NilType then Inr False else Known c)"
| "Known (GenericType nm pkg ps g s) = all_Known (map Known ps)"
| "Known UnknownType = Inr False"

subsection \<open>RootType\<close>

text \<open>
  The loop of \<^verbatim>\<open>CustomType.RootType\<close>, from the value of \<^verbatim>\<open>current\<close>. Nothing bounds
  the number of its rounds, so it is a partial function: \<open>None\<close> is the run that never
  returns.
\<close>

partial_function (option) RootType_loop :: "decls \<Rightarrow> Type \<Rightarrow> (error + Type) option" where
  "RootType_loop ds current =
     (case KindOf current of
        Inl e \<Rightarrow> Some (Inl e)
      | Inr k \<Rightarrow>
          if k = KIND_CUSTOM then
            (case current of
               CustomType nm pkg (Some a) \<Rightarrow> RootType_loop ds (AliasedType (ds a))
             | _ \<Rightarrow> Some (Inl NilDeref))
          else Some (Inr current))"

text \<open>\<^verbatim>\<open>(t *CustomType) RootType()\<close>, from the field \<^verbatim>\<open>t.Decl\<close>.\<close>

definition CustomType_RootType :: "decls \<Rightarrow> addr option \<Rightarrow> (error + Type) option" where
  "CustomType_RootType ds decl =
     (case decl of
        None \<Rightarrow> Some (Inl NilDeref)
      | Some a \<Rightarrow> RootType_loop ds (AliasedType (ds a)))"

subsection \<open>ZeroValue\<close>

text \<open>
  The loop of \<^verbatim>\<open>ArrayType.ZeroValue\<close> after the header \<open>h\<close> is written: \<open>n\<close> times the
  zero value \<open>z\<close> of the element, a comma between two of them, and the closing brace.
\<close>

definition array_literal :: "string \<Rightarrow> int \<Rightarrow> string \<Rightarrow> string" where
  "array_literal h n z = h @ ''{'' @ joinWith '', '' (replicate (nat n) z) @ ''}''"

text \<open>
  \<^verbatim>\<open>ZeroValue()\<close>. A named type answers with the zero value of its root type, which is
  read out of the declarations, so the recursion is not structural and the function is
  partial. An array asks its element only when its loop runs (\<^verbatim>\<open>0 < Size\<close>). The
  \<^verbatim>\<open>*StructType\<close> of a generic instance may be nil: the method is then entered with a
  nil receiver, and \<^verbatim>\<open>fmt\<close> prints a nil pointer whose \<^verbatim>\<open>String\<close> method panics as
  \<^verbatim>\<open><nil>\<close>.
\<close>

partial_function (option) ZeroValue :: "decls \<Rightarrow> Type \<Rightarrow> (error + string) option" where
  "ZeroValue ds t =
     (case t of
        NilType \<Rightarrow> Some (Inl NilDeref)
      | SimpleType i \<Rightarrow>
          Some (Inr (if i = SIMPLE_TYPE_STRING then [CHR 0x22, CHR 0x22]
                     else if i = SIMPLE_TYPE_BOOL then ''false''
                     else ''0''))
      | ArrayType n el \<Rightarrow>
          (case Sprintf_s False (String t) of
             Inl e \<Rightarrow> Some (Inl e)
           | Inr h \<Rightarrow>
               if 0 < n then
                 Option.bind (ZeroValue ds el)
                   (\<lambda>r. case r of
                          Inl e \<Rightarrow> Some (Inl e)
                        | Inr z \<Rightarrow> Some (Inr (array_literal h n z)))
               else Some (Inr (array_literal h n [])))
      | SliceType el \<Rightarrow> Some (Inr ''nil'')
      | MapType b el \<Rightarrow> Some (Inr ''nil'')
      | FuncType as rs \<Rightarrow> Some (Inr ''nil'')
      | ChanType el d \<Rightarrow> Some (Inr ''nil'')
      | PointerType el \<Rightarrow> Some (Inr ''nil'')
      | TupleType ms \<Rightarrow> Some (Inl (Panic ''this should not happen''))
      | StructType ms ks nm \<Rightarrow>
          Some (case Sprintf_s False (String t) of
                  Inl e \<Rightarrow> Inl e
                | Inr s \<Rightarrow> Inr (s @ ''{}''))
      | IfaceType ks ms nm \<Rightarrow> Some (Inr ''nil'')
      | CustomType nm pkg decl \<Rightarrow>
          Option.bind (CustomType_RootType ds decl)
            (\<lambda>r. case r of
                   Inl e \<Rightarrow> Some (Inl e)
                 | Inr root \<Rightarrow> ZeroValue ds root)
      | GenericParamType nm c \<Rightarrow> ZeroValue ds c
      | GenericType nm pkg ps g st \<Rightarrow>
          (case st of
             None \<Rightarrow> Some (Inr ''<nil>{}'')
           | Some struc \<Rightarrow> ZeroValue ds struc)
      | UnknownType \<Rightarrow> Some (Inr ''nil''))"

subsection \<open>The predicates on simple types\<close>

definition IsTypeSimple :: "Type \<Rightarrow> int \<Rightarrow> error + bool" where
  "IsTypeSimple t simpleType =
     (case t of
        NilType \<Rightarrow> Inl NilDeref
      | SimpleType i \<Rightarrow> Inr (i = simpleType)
      | _ \<Rightarrow> Inr False)"

definition IsTypeIntKind :: "Type \<Rightarrow> error + bool" where
  "IsTypeIntKind t =
     (case t of
        NilType \<Rightarrow> Inl NilDeref
      | SimpleType i \<Rightarrow>
          Inr (i \<in> {SIMPLE_TYPE_INT, SIMPLE_TYPE_INT8, SIMPLE_TYPE_INT16, SIMPLE_TYPE_INT32,
                    SIMPLE_TYPE_INT64, SIMPLE_TYPE_UINT8, SIMPLE_TYPE_UINT16,
                    SIMPLE_TYPE_UINT32, SIMPLE_TYPE_UINT64, SIMPLE_TYPE_UINT,
                    SIMPLE_TYPE_BYTE})
      | _ \<Rightarrow> Inr False)"

definition IsTypeFloatKind :: "Type \<Rightarrow> error + bool" where
  "IsTypeFloatKind t =
     (case t of
        NilType \<Rightarrow> Inl NilDeref
      | SimpleType i \<Rightarrow> Inr (i \<in> {SIMPLE_TYPE_FLOAT32, SIMPLE_TYPE_FLOAT64})
      | _ \<Rightarrow> Inr False)"

definition IsTypeComplexType :: "Type \<Rightarrow> error + bool" where
  "IsTypeComplexType t =
     (case t of
        NilType \<Rightarrow> Inl NilDeref
      | SimpleType i \<Rightarrow> Inr (i \<in> {SIMPLE_TYPE_COMPLEX64, SIMPLE_TYPE_COMPLEX128})
      | _ \<Rightarrow> Inr False)"

text \<open>The short-circuit \<^verbatim>\<open>||\<close> on outcomes.\<close>

definition or_else :: "error + bool \<Rightarrow> error + bool \<Rightarrow> error + bool" where
  "or_else a b = (case a of Inl e \<Rightarrow> Inl e | Inr x \<Rightarrow> if x then Inr True else b)"

definition IsTypeNumeric :: "Type \<Rightarrow> error + bool" where
  "IsTypeNumeric t =
     or_else (IsTypeIntKind t)
       (or_else (IsTypeFloatKind t)
          (or_else (IsTypeComplexType t) (IsTypeSimple t SIMPLE_TYPE_RUNE)))"

subsection \<open>Traversal of subtypes\<close>

text \<open>
  The callback of a traversal is a Go closure: it reads and writes variables of its
  own. Here it takes the state of those variables and returns it with its answer.
\<close>

type_synonym 's callback = "Type \<Rightarrow> 's \<Rightarrow> bool \<times> 's"

text \<open>
  \<^verbatim>\<open>mapSubtype\<close>, the methods \<^verbatim>\<open>MapSubtypes\<close> and \<^verbatim>\<open>mapSubtypes\<close>. A named type
  hands over the aliased type of its declaration, so a traversal may go round a cycle
  of declarations for ever: the first argument bounds the depth of nested
  \<^verbatim>\<open>mapSubtype\<close> calls, and \<open>None\<close> is the run that needs more. \<^verbatim>\<open>t.Members[k]\<close>
  of a key that is not in the map is the nil interface value.
\<close>

fun mapSubtype :: "nat \<Rightarrow> decls \<Rightarrow> 's callback \<Rightarrow> Type \<Rightarrow> 's \<Rightarrow> (error + 's) option"
  and MapSubtypes :: "nat \<Rightarrow> decls \<Rightarrow> 's callback \<Rightarrow> Type \<Rightarrow> 's \<Rightarrow> (error + 's) option"
  and mapSubtypes :: "nat \<Rightarrow> decls \<Rightarrow> 's callback \<Rightarrow> Type list \<Rightarrow> 's \<Rightarrow> (error + 's) option"
where
  "mapSubtype 0 ds cb t s = None"
| "mapSubtype (Suc n) ds cb t s =
     (case cb t s of (goOn, s') \<Rightarrow> if goOn then MapSubtypes n ds cb t s' else Some (Inr s'))"
| "MapSubtypes n ds cb NilType s = Some (Inl NilDeref)"
| "MapSubtypes n ds cb (SimpleType i) s = Some (Inr s)"
| "MapSubtypes n ds cb (ArrayType k t) s = mapSubtype n ds cb t s"
| "MapSubtypes n ds cb (SliceType t) s = mapSubtype n ds cb t s"
| "MapSubtypes n ds cb (MapType b t) s =
     (case mapSubtype n ds cb b s of
        Some (Inr s') \<Rightarrow> mapSubtype n ds cb t s'
      | r \<Rightarrow> r)"
| "MapSubtypes n ds cb (FuncType as rs) s =
     (case mapSubtypes n ds cb as s of
        Some (Inr s') \<Rightarrow> mapSubtypes n ds cb rs s'
      | r \<Rightarrow> r)"
| "MapSubtypes n ds cb (ChanType t d) s = mapSubtype n ds cb t s"
| "MapSubtypes n ds cb (PointerType t) s = mapSubtype n ds cb t s"
| "MapSubtypes n ds cb (TupleType ms) s = mapSubtypes n ds cb ms s"
| "MapSubtypes n ds cb (StructType ms ks nm) s =
     mapSubtypes n ds cb
       (map (\<lambda>k. case map_of ms k of None \<Rightarrow> NilType | Some t \<Rightarrow> t) ks) s"
| "MapSubtypes n ds cb (IfaceType ks ms nm) s = Some (Inr s)"
| "MapSubtypes n ds cb (CustomType nm pkg decl) s =
     (case decl of
        None \<Rightarrow> Some (Inr s)
      | Some a \<Rightarrow> mapSubtype n ds cb (AliasedType (ds a)) s)"
| "MapSubtypes n ds cb (GenericParamType nm c) s = Some (Inr s)"
| "MapSubtypes n ds cb (GenericType nm pkg ps g st) s = mapSubtypes n ds cb ps s"
| "MapSubtypes n ds cb UnknownType s = Some (Inr s)"
| "mapSubtypes n ds cb [] s = Some (Inr s)"
| "mapSubtypes n ds cb (t # ts) s =
     (case mapSubtype n ds cb t s of
        Some (Inr s') \<Rightarrow> mapSubtypes n ds cb ts s'
      | r \<Rightarrow> r)"

subsection \<open>Alias chains\<close>

text \<open>
  The alias chain of a type: a named type with a declaration is followed by the aliased
  type of that declaration; any other value ends the chain. The chain from \<open>t\<close> is
  \<open>t\<close>, \<open>next_alias ds t\<close>, \<open>next_alias ds (next_alias ds t)\<close>, ...
\<close>

definition is_alias :: "Type \<Rightarrow> bool" where
  "is_alias t = (case t of CustomType nm pkg (Some a) \<Rightarrow> True | _ \<Rightarrow> False)"

definition next_alias :: "decls \<Rightarrow> Type \<Rightarrow> Type" where
  "next_alias ds t = (case t of CustomType nm pkg (Some a) \<Rightarrow> AliasedType (ds a) | _ \<Rightarrow> t)"

text \<open>
  Declarations to run the definitions on: \<^verbatim>\<open>type A B\<close> at address 0,
  \<^verbatim>\<open>type B int\<close> at address 1, and at every other address a type \<^verbatim>\<open>C\<close> that
  aliases itself.
\<close>

definition sample_decls :: decls where
  "sample_decls a =
     (if a = 0 then \<lparr>TypeDecl_name = ''A'', AliasedType = CustomType ''B'' None (Some 1)\<rparr>
      else if a = 1 then \<lparr>TypeDecl_name = ''B'', AliasedType = SimpleType SIMPLE_TYPE_INT\<rparr>
      else \<lparr>TypeDecl_name = ''C'', AliasedType = CustomType ''C'' None (Some a)\<rparr>)"

(*DEFS-END*)

section \<open>Properties\<close>

lemmas SimpleTypeID_defs =
  SIMPLE_TYPE_BOOL_def SIMPLE_TYPE_BYTE_def SIMPLE_TYPE_COMPLEX128_def
  SIMPLE_TYPE_COMPLEX64_def SIMPLE_TYPE_ERROR_def SIMPLE_TYPE_FLOAT32_def
  SIMPLE_TYPE_FLOAT64_def SIMPLE_TYPE_INT_def SIMPLE_TYPE_INT16_def SIMPLE_TYPE_INT32_def
  SIMPLE_TYPE_INT64_def SIMPLE_TYPE_INT8_def SIMPLE_TYPE_RUNE_def SIMPLE_TYPE_STRING_def
  SIMPLE_TYPE_UINT_def SIMPLE_TYPE_UINT16_def SIMPLE_TYPE_UINT32_def SIMPLE_TYPE_UINT64_def
  SIMPLE_TYPE_UINT8_def SIMPLE_TYPE_UINTPTR_def

declare RootType_loop.simps [code]
declare ZeroValue.simps [code]

subsection \<open>RootType\<close>

lemma RootType_loop_alias:
  "is_alias t \<Longrightarrow> RootType_loop ds t = RootType_loop ds (next_alias ds t)"
  by (subst RootType_loop.simps)
    (simp add: is_alias_def next_alias_def split: Type.splits option.splits)

lemma RootType_loop_root:
  "KindOf t = Inr k \<Longrightarrow> k \<noteq> KIND_CUSTOM \<Longrightarrow> RootType_loop ds t = Some (Inr t)"
  by (subst RootType_loop.simps) simp

lemma RootType_loop_funpow:
  "(\<And>i. i < k \<Longrightarrow> is_alias ((next_alias ds ^^ i) t)) \<Longrightarrow>
     RootType_loop ds t = RootType_loop ds ((next_alias ds ^^ k) t)"
proof (induction k)
  case 0
  then show ?case by simp
next
  case (Suc k)
  have "RootType_loop ds t = RootType_loop ds ((next_alias ds ^^ k) t)"
    using Suc by simp
  also have "\<dots> = RootType_loop ds (next_alias ds ((next_alias ds ^^ k) t))"
    using Suc.prems [of k] by (simp add: RootType_loop_alias)
  finally show ?case by simp
qed

text \<open>A run of the loop that returns has left the named types after finitely many steps.\<close>

lemma RootType_loop_Some_leaves:
  assumes "RootType_loop ds t = Some y"
  shows "\<exists>i. \<not> is_alias ((next_alias ds ^^ i) t)"
  apply (rule RootType_loop.raw_induct
      [where P = "\<lambda>ds t y. \<exists>i. \<not> is_alias ((next_alias ds ^^ i) t)", OF _ assms])
  subgoal premises prems for f ds t y
  proof (cases "is_alias t")
    case False
    then have "\<not> is_alias ((next_alias ds ^^ 0) t)" by simp
    then show ?thesis by blast
  next
    case True
    then obtain nm pkg a where t: "t = CustomType nm pkg (Some a)"
      by (auto simp: is_alias_def split: Type.splits option.splits)
    from prems(2) have "f ds (AliasedType (ds a)) = Some y"
      by (simp add: t)
    from prems(1) [OF this] obtain i
      where "\<not> is_alias ((next_alias ds ^^ i) (AliasedType (ds a)))"
      by blast
    then have "\<not> is_alias ((next_alias ds ^^ Suc i) t)"
      by (simp add: t funpow_swap1 next_alias_def)
    then show ?thesis by blast
  qed
  done

text \<open>
  C7. \<^verbatim>\<open>RootType\<close> on a named type whose alias chain leaves the named types after
  \<open>k\<close> steps (every earlier type of the chain is a named type with a declaration, the
  \<open>k\<close>-th has a kind other than \<^verbatim>\<open>KIND_CUSTOM\<close>) returns, and returns that \<open>k\<close>-th
  type, the first of the chain that is not an alias. The routine has no guard of its
  own: on a chain that never leaves the named types it does not return.
\<close>

theorem RootType_chain:
  "((\<forall>i<k. is_alias ((next_alias ds ^^ i) (CustomType nm pkg (Some a)))) \<and>
    KindOf ((next_alias ds ^^ k) (CustomType nm pkg (Some a))) = Inr kd \<and> kd \<noteq> KIND_CUSTOM
    \<longrightarrow> CustomType_RootType ds (Some a) =
          Some (Inr ((next_alias ds ^^ k) (CustomType nm pkg (Some a))))) \<and>
   ((\<forall>i. is_alias ((next_alias ds ^^ i) (CustomType nm pkg (Some a))))
    \<longrightarrow> CustomType_RootType ds (Some a) = None)"
proof -
  let ?c = "CustomType nm pkg (Some a)"
  have start: "CustomType_RootType ds (Some a) = RootType_loop ds ?c"
    by (simp add: CustomType_RootType_def RootType_loop_alias [of ?c] is_alias_def
        next_alias_def)
  have fin: "CustomType_RootType ds (Some a) = Some (Inr ((next_alias ds ^^ k) ?c))"
    if "\<forall>i<k. is_alias ((next_alias ds ^^ i) ?c)"
      and "KindOf ((next_alias ds ^^ k) ?c) = Inr kd" and "kd \<noteq> KIND_CUSTOM"
  proof -
    have "RootType_loop ds ?c = RootType_loop ds ((next_alias ds ^^ k) ?c)"
      using that(1) by (intro RootType_loop_funpow) simp
    with that(2,3) show ?thesis
      by (simp add: start RootType_loop_root)
  qed
  have inf: "CustomType_RootType ds (Some a) = None"
    if "\<forall>i. is_alias ((next_alias ds ^^ i) ?c)"
  proof (cases "RootType_loop ds ?c")
    case None
    then show ?thesis by (simp add: start)
  next
    case (Some y)
    from RootType_loop_Some_leaves [OF this] that show ?thesis by blast
  qed
  from fin inf show ?thesis by blast
qed

lemma sample_cycle:
  "is_alias ((next_alias sample_decls ^^ i) (CustomType ''C'' None (Some 2)))"
proof -
  have "(next_alias sample_decls ^^ i) (CustomType ''C'' None (Some 2)) =
      CustomType ''C'' None (Some 2)"
    by (induction i) (simp_all add: next_alias_def sample_decls_def)
  then show ?thesis by (simp add: is_alias_def)
qed

theorem RootType_chain_witness:
  "CustomType_RootType sample_decls (Some 0) = Some (Inr (SimpleType SIMPLE_TYPE_INT)) \<and>
   CustomType_RootType sample_decls (Some 2) = None"
proof -
  have two: "(next_alias sample_decls ^^ 2) (CustomType ''A'' None (Some 0)) =
      SimpleType SIMPLE_TYPE_INT"
    by (simp add: numeral_2_eq_2 next_alias_def sample_decls_def)
  have al: "\<forall>i<2. is_alias ((next_alias sample_decls ^^ i) (CustomType ''A'' None (Some 0)))"
    by (simp add: less_Suc_eq numeral_2_eq_2 is_alias_def next_alias_def sample_decls_def)
  have "CustomType_RootType sample_decls (Some 0) = Some (Inr (SimpleType SIMPLE_TYPE_INT))"
    using RootType_chain [of 2 sample_decls "''A''" None 0 KIND_SIMPLE] al two by simp
  moreover have "CustomType_RootType sample_decls (Some 2) = None"
    using RootType_chain [of 0 sample_decls "''C''" None 2 KIND_SIMPLE] sample_cycle by blast
  ultimately show ?thesis by simp
qed

end
